theory Spec2Isabelle
  imports Complex_Main
begin

section \<open>JavaScript values\<close>

text \<open>
  Numbers are IEEE doubles in the source. The model keeps the three special values and
  represents every other number by the rational it denotes: arithmetic on finite numbers
  is exact (no rounding, no overflow), and \<open>-0\<close> is identified with \<open>0\<close>.
\<close>

datatype jsnum = NaN | Fin rat | PosInf | NegInf

datatype prim = Undefined | Null | Bool bool | Number jsnum | String string

text \<open>
  A parsed JSON document. An \<open>Object\<close> lists its own properties; reading a property
  takes the first pair with that key.
\<close>

datatype jsval = Prim prim | Array "jsval list" | Object "(string \<times> jsval) list"

datatype js_error = Error string | TypeError string

fun message :: "js_error \<Rightarrow> string" where
  "message (Error m) = m"
| "message (TypeError m) = m"

fun bind_err :: "('e + 'a) \<Rightarrow> ('a \<Rightarrow> 'e + 'b) \<Rightarrow> 'e + 'b" where
  "bind_err (Inl e) f = Inl e"
| "bind_err (Inr x) f = f x"

text \<open>\<open>ToBoolean\<close>: what \<open>if (v)\<close>, \<open>v && w\<close> and \<open>v || w\<close> test.\<close>

fun ToBoolean :: "prim \<Rightarrow> bool" where
  "ToBoolean Undefined = False"
| "ToBoolean Null = False"
| "ToBoolean (Bool b) = b"
| "ToBoolean (Number NaN) = False"
| "ToBoolean (Number (Fin r)) = (r \<noteq> 0)"
| "ToBoolean (Number PosInf) = True"
| "ToBoolean (Number NegInf) = True"
| "ToBoolean (String s) = (s \<noteq> [])"

fun truthy :: "jsval \<Rightarrow> bool" where
  "truthy (Prim p) = ToBoolean p"
| "truthy (Array xs) = True"
| "truthy (Object ps) = True"

text \<open>
  \<open>v.k\<close> for a property name \<open>k\<close> that no built-in prototype defines (the client reads
  \<open>outputs\<close>, \<open>message\<close>, \<open>text\<close>, \<open>artifacts\<close> and \<open>stream_url\<close> only): reading from
  \<open>undefined\<close> or \<open>null\<close> throws a TypeError (with the message V8 gives it, the
  property name in single quotes), an object yields its own property or \<open>undefined\<close>,
  every other value yields \<open>undefined\<close>.
\<close>

fun get :: "jsval \<Rightarrow> string \<Rightarrow> js_error + jsval" where
  "get (Prim Undefined) k =
     Inl (TypeError (''Cannot read properties of undefined (reading '' @ [CHR 0x27] @ k
                     @ [CHR 0x27] @ '')''))"
| "get (Prim Null) k =
     Inl (TypeError (''Cannot read properties of null (reading '' @ [CHR 0x27] @ k
                     @ [CHR 0x27] @ '')''))"
| "get (Prim p) k = Inr (Prim Undefined)"
| "get (Array xs) k = Inr (Prim Undefined)"
| "get (Object ps) k = Inr (case map_of ps k of None \<Rightarrow> Prim Undefined | Some v \<Rightarrow> v)"

text \<open>\<open>v[0]\<close>: the first element of an array, the first character of a string, the
  property \<open>0\<close> of an object.\<close>

fun at0 :: "jsval \<Rightarrow> js_error + jsval" where
  "at0 (Prim Undefined) = get (Prim Undefined) ''0''"
| "at0 (Prim Null) = get (Prim Null) ''0''"
| "at0 (Prim (String s)) =
     Inr (case s of [] \<Rightarrow> Prim Undefined | c # cs \<Rightarrow> Prim (String [c]))"
| "at0 (Prim p) = Inr (Prim Undefined)"
| "at0 (Array xs) = Inr (case xs of [] \<Rightarrow> Prim Undefined | x # ys \<Rightarrow> x)"
| "at0 (Object ps) = get (Object ps) ''0''"

text \<open>\<open>a && b\<close>, with \<open>a\<close> already evaluated: \<open>b\<close> is evaluated only when \<open>a\<close> is truthy.\<close>

definition js_and :: "jsval \<Rightarrow> (jsval \<Rightarrow> js_error + jsval) \<Rightarrow> js_error + jsval" where
  "js_and a b = (if truthy a then b a else Inr a)"

section \<open>Decimal digits and whitespace\<close>

definition digit_char :: "nat \<Rightarrow> char" where
  "digit_char d = char_of (48 + d)"

fun show_nat :: "nat \<Rightarrow> string" where
  "show_nat n = (if n < 10 then [digit_char n] else show_nat (n div 10) @ [digit_char (n mod 10)])"

declare show_nat.simps [simp del]

text \<open>
  The characters \<open>String.prototype.trim\<close> removes, among the code units below 256 that
  a \<open>char\<close> holds: tab, line feed, vertical tab, form feed, carriage return, space and
  the no-break space.
\<close>

definition WhiteSpace :: "char \<Rightarrow> bool" where
  "WhiteSpace c = (of_char c \<in> {9, 10, 11, 12, 13, 32, 160 :: nat})"

definition trim :: "string \<Rightarrow> string" where
  "trim s = rev (dropWhile WhiteSpace (rev (dropWhile WhiteSpace s)))"

section \<open>The flow client (src/App.js)\<close>

record request =
  url :: string
  http_method :: string
  headers :: "(string \<times> string) list"
  body :: string
  credentials :: string

record response =
  status :: nat
  statusText :: string
  response_text :: string

text \<open>\<open>response.ok\<close> of the Fetch standard: the status is in the range 200 to 299.\<close>

definition ok :: "response \<Rightarrow> bool" where
  "ok r = (200 \<le> status r \<and> status r \<le> 299)"

text \<open>
  What the browser provides: \<open>fetch\<close> (which rejects with an error when the resource is
  unreachable), \<open>JSON.parse\<close> (\<open>None\<close> when it throws a SyntaxError) and
  \<open>JSON.stringify\<close>.
\<close>

record host =
  fetch :: "request \<Rightarrow> js_error + response"
  JSON_parse :: "string \<Rightarrow> jsval option"
  JSON_stringify :: "jsval \<Rightarrow> string"

record LangflowClient =
  baseURL :: string
  applicationToken :: string

text \<open>The constructor ignores its first argument: the base is \<open>PUBLIC_URL + '/api'\<close>.\<close>

definition new_LangflowClient :: "string \<Rightarrow> string \<Rightarrow> string \<Rightarrow> LangflowClient" where
  "new_LangflowClient PUBLIC_URL baseURL' token =
     \<lparr>baseURL = PUBLIC_URL @ ''/api'', applicationToken = token\<rparr>"

text \<open>The request \<open>post\<close> hands to \<open>fetch\<close>.\<close>

definition post_request :: "host \<Rightarrow> LangflowClient \<Rightarrow> string \<Rightarrow> jsval \<Rightarrow> request" where
  "post_request h client endpoint body' =
     \<lparr>url = baseURL client @ endpoint, http_method = ''POST'',
      headers = [(''Content-Type'', ''application/json''),
                 (''Authorization'', ''Bearer '' @ applicationToken client)],
      body = JSON_stringify h body', credentials = ''same-origin''\<rparr>"

text \<open>The error thrown at line 34:
  \<open>new Error(`${response.status} ${response.statusText} - ${JSON.stringify(json)}`)\<close>.\<close>

definition status_error :: "host \<Rightarrow> response \<Rightarrow> jsval \<Rightarrow> js_error" where
  "status_error h response json =
     Error (show_nat (status response) @ '' '' @ statusText response @ '' - ''
            @ JSON_stringify h json)"

text \<open>
  \<open>post\<close> returns the parsed body or the error it throws, and the request it sent. The
  body is parsed before the status is looked at; the outer \<open>catch\<close> rethrows what it caught.
\<close>

definition post :: "host \<Rightarrow> LangflowClient \<Rightarrow> string \<Rightarrow> jsval \<Rightarrow> (js_error + jsval) \<times> request list" where
  "post h client endpoint body' =
     (let req = post_request h client endpoint body'
      in (case fetch h req of
            Inl e \<Rightarrow> Inl e
          | Inr response \<Rightarrow>
              (case JSON_parse h (response_text response) of
                 None \<Rightarrow> Inl (Error ''Invalid JSON response from server'')
               | Some json \<Rightarrow>
                   if \<not> ok response then Inl (status_error h response json) else Inr json),
          [req]))"

definition show_bool :: "bool \<Rightarrow> string" where
  "show_bool b = (if b then ''true'' else ''false'')"

definition initiateSession ::
  "host \<Rightarrow> LangflowClient \<Rightarrow> string \<Rightarrow> string \<Rightarrow> string \<Rightarrow> string \<Rightarrow> string \<Rightarrow> bool \<Rightarrow> jsval
     \<Rightarrow> (js_error + jsval) \<times> request list" where
  "initiateSession h client flowId langflowId inputValue' inputType outputType stream tweaks =
     post h client
       (''/lf/'' @ langflowId @ ''/api/v1/run/'' @ flowId @ ''?stream='' @ show_bool stream)
       (Object [(''input_value'', Prim (String inputValue')),
                (''input_type'', Prim (String inputType)),
                (''output_type'', Prim (String outputType)),
                (''tweaks'', tweaks)])"

text \<open>
  The condition of \<open>runFlow\<close> that decides whether a stream is opened:
  \<open>stream && initResponse && initResponse.outputs &&
   initResponse.outputs[0].outputs[0].artifacts.stream_url\<close>.
\<close>

definition stream_url_of :: "bool \<Rightarrow> jsval \<Rightarrow> js_error + jsval" where
  "stream_url_of stream initResponse =
     (if \<not> stream then Inr (Prim (Bool False))
      else js_and initResponse (\<lambda>r.
             bind_err (get r ''outputs'') (\<lambda>outs.
               js_and outs (\<lambda>os.
                 bind_err (at0 os) (\<lambda>o0.
                 bind_err (get o0 ''outputs'') (\<lambda>oo.
                 bind_err (at0 oo) (\<lambda>oo0.
                 bind_err (get oo0 ''artifacts'') (\<lambda>a. get a ''stream_url''))))))))"

text \<open>
  What \<open>runFlow\<close> hands back: the value it returns (\<open>undefined\<close> after a caught error),
  the requests sent, the URL of the event stream it opened, and whether it called
  \<open>onError('Error initiating session')\<close>.
\<close>

record flow_result =
  returned :: jsval
  requests :: "request list"
  streamUrl :: "jsval option"
  onError_called :: bool

definition runFlow ::
  "host \<Rightarrow> LangflowClient \<Rightarrow> string \<Rightarrow> string \<Rightarrow> string \<Rightarrow> string \<Rightarrow> string \<Rightarrow> jsval \<Rightarrow> bool
     \<Rightarrow> flow_result" where
  "runFlow h client flowIdOrName langflowId inputValue' inputType outputType tweaks stream =
     (case initiateSession h client flowIdOrName langflowId inputValue' inputType outputType
             stream tweaks of
        (Inl e, reqs) \<Rightarrow>
          \<lparr>returned = Prim Undefined, requests = reqs, streamUrl = None, onError_called = True\<rparr>
      | (Inr initResponse, reqs) \<Rightarrow>
          (case stream_url_of stream initResponse of
             Inl e \<Rightarrow>
               \<lparr>returned = Prim Undefined, requests = reqs, streamUrl = None,
                onError_called = True\<rparr>
           | Inr u \<Rightarrow>
               \<lparr>returned = initResponse, requests = reqs,
                streamUrl = (if truthy u then Some u else None), onError_called = False\<rparr>))"

subsection \<open>The chat state and \<open>handleSubmit\<close>\<close>

datatype sender = User | Bot

record chat_message =
  type' :: sender
  text' :: jsval

record app_state =
  inputValue :: string
  messages :: "chat_message list"
  isLoading :: bool
  error :: prim

record env =
  PUBLIC_URL :: string
  REACT_APP_FLOW_ID :: string
  REACT_APP_LANGFLOW_ID :: string
  REACT_APP_ASTRA_TOKEN :: string

text \<open>Lines 143 to 156: the search for the reply text in the component output.\<close>

definition botResponse :: "jsval \<Rightarrow> js_error + jsval" where
  "botResponse componentOutput =
     bind_err (get componentOutput ''outputs'') (\<lambda>outs.
     bind_err (js_and outs (\<lambda>os. get os ''message'')) (\<lambda>message'.
       if truthy message' then
         bind_err (get message' ''message'') (\<lambda>mm.
         bind_err (js_and mm (\<lambda>m. get m ''text'')) (\<lambda>t1.
           if truthy t1 then Inr t1
           else bind_err (get message' ''text'') (\<lambda>t2.
                  if truthy t2 then Inr t2 else Inr (Prim (String [])))))
       else
         bind_err (get componentOutput ''message'') (\<lambda>cm.
         bind_err (js_and cm (\<lambda>m. get m ''text'')) (\<lambda>t3.
           if truthy t3 then Inr t3
           else bind_err (get componentOutput ''text'') (\<lambda>t4.
                  if truthy t4 then Inr t4 else Inr (Prim (String [])))))))"

text \<open>Lines 134 to 169: what \<open>handleSubmit\<close> does with the value \<open>runFlow\<close> returned.\<close>

definition handle_response :: "jsval \<Rightarrow> app_state \<Rightarrow> js_error + app_state" where
  "handle_response response s =
     bind_err (js_and response (\<lambda>r. bind_err (get r ''outputs'') (\<lambda>outs. js_and outs at0)))
       (\<lambda>flowOutput.
          if truthy flowOutput then
            bind_err (bind_err (get flowOutput ''outputs'') (\<lambda>outs. js_and outs at0))
              (\<lambda>componentOutput.
                 if truthy componentOutput then
                   bind_err (botResponse componentOutput) (\<lambda>b.
                     if truthy b
                     then Inr (s\<lparr>messages := messages s @ [\<lparr>type' = Bot, text' = b\<rparr>]\<rparr>)
                     else Inr (s\<lparr>error := String ''Could not extract bot response''\<rparr>))
                 else Inr s)
          else Inr (s\<lparr>error := String ''Invalid response from server''\<rparr>))"

definition tweaks :: jsval where
  "tweaks = Object [(''ChatInput-2BM4d'', Object []), (''ChatOutput-5Ecy2'', Object []),
                    (''AstraDBToolComponent-0slpL'', Object []), (''Agent-tXQtJ'', Object []),
                    (''Prompt-wQDfs'', Object []), (''CalculatorTool-IaFHC'', Object [])]"

text \<open>
  \<open>handleSubmit\<close> returns the state after all its updates and the requests it sent. The
  error callback given to \<open>runFlow\<close> is \<open>(error) => setError(error.message)\<close>; \<open>runFlow\<close>
  calls it with a string, whose \<open>message\<close> is \<open>undefined\<close>.
\<close>

definition handleSubmit :: "host \<Rightarrow> env \<Rightarrow> app_state \<Rightarrow> app_state \<times> request list" where
  "handleSubmit h e s =
     (if trim (inputValue s) = [] then (s, [])
      else
        let langflowClient = new_LangflowClient (PUBLIC_URL e) [] (REACT_APP_ASTRA_TOKEN e);
            s1 = s\<lparr>isLoading := True\<rparr>;
            s2 = s1\<lparr>error := String []\<rparr>;
            s3 = s2\<lparr>messages := messages s2 @ [\<lparr>type' = User, text' = Prim (String (inputValue s))\<rparr>]\<rparr>;
            userMessage = inputValue s;
            s4 = s3\<lparr>inputValue := []\<rparr>;
            r = runFlow h langflowClient (REACT_APP_FLOW_ID e) (REACT_APP_LANGFLOW_ID e)
                  userMessage ''chat'' ''chat'' tweaks False;
            s5 = (if onError_called r then s4\<lparr>error := Undefined\<rparr> else s4);
            s6 = (case handle_response (returned r) s5 of
                    Inl err \<Rightarrow> s5\<lparr>error := String (message err)\<rparr>
                  | Inr s' \<Rightarrow> s')
        in (s6\<lparr>isLoading := False\<rparr>, requests r))"

subsection \<open>The extraction in the words of the specification\<close>

text \<open>\<open>v?.k\<close>: the property, or \<open>undefined\<close> where \<open>v\<close> has none.\<close>

definition opt_get :: "jsval \<Rightarrow> string \<Rightarrow> jsval" where
  "opt_get v k = (case get v k of Inl e \<Rightarrow> Prim Undefined | Inr w \<Rightarrow> w)"

fun path :: "jsval \<Rightarrow> string list \<Rightarrow> jsval" where
  "path v [] = v"
| "path v (k # ks) = path (opt_get v k) ks"

definition first_of :: "jsval \<Rightarrow> jsval" where
  "first_of v = (case at0 v of Inl e \<Rightarrow> Prim Undefined | Inr w \<Rightarrow> w)"

definition first_truthy :: "jsval list \<Rightarrow> jsval option" where
  "first_truthy vs = List.find truthy vs"

text \<open>The first output's first nested output.\<close>

definition first_nested_output :: "jsval \<Rightarrow> jsval" where
  "first_nested_output response =
     first_of (path (first_of (path response [''outputs''])) [''outputs''])"

text \<open>The search as the specification states it: the four variants in order, the first
  non-empty match.\<close>

definition extract_spec :: "jsval \<Rightarrow> jsval option" where
  "extract_spec co = first_truthy
     [path co [''outputs'', ''message'', ''message'', ''text''],
      path co [''outputs'', ''message'', ''text''],
      path co [''message'', ''text''],
      path co [''text'']]"

text \<open>The search with the shape deciding: variants (a) and (b) when
  \<open>outputs.message\<close> is present, variants (c) and (d) otherwise.\<close>

definition extract_by_shape :: "jsval \<Rightarrow> jsval option" where
  "extract_by_shape co =
     (if truthy (path co [''outputs'', ''message''])
      then first_truthy [path co [''outputs'', ''message'', ''message'', ''text''],
                         path co [''outputs'', ''message'', ''text'']]
      else first_truthy [path co [''message'', ''text''], path co [''text'']])"

section \<open>The dashboard (src/components/Dashboard.js)\<close>

subsection \<open>Rows\<close>

text \<open>
  A row is what the CSV parser builds for one record with \<open>header: true\<close> and
  \<open>dynamicTyping: true\<close>: an object whose values are \<open>null\<close> (an empty field), a boolean,
  a finite number or a string. The list holds the own properties in the order
  \<open>Object.keys\<close> reports them. Cells that the parser turns into \<open>Date\<close> objects (full
  ISO timestamps) are not part of the model.
\<close>

datatype cell = CNull | CBool bool | CNum rat | CStr string

type_synonym row = "(string \<times> cell) list"

fun cell_value :: "cell \<Rightarrow> prim" where
  "cell_value CNull = Null"
| "cell_value (CBool b) = Bool b"
| "cell_value (CNum r) = Number (Fin r)"
| "cell_value (CStr s) = String s"

text \<open>\<open>row.k\<close>, for a column name \<open>k\<close> that \<open>Object.prototype\<close> does not define.\<close>

definition field :: "row \<Rightarrow> string \<Rightarrow> prim" where
  "field r k = (case map_of r k of None \<Rightarrow> Undefined | Some c \<Rightarrow> cell_value c)"

subsection \<open>Operators\<close>

text \<open>
  The conversions between numbers and strings depend on the double representation and
  the engine, and the date formatting on the locale: they are parameters.
  \<open>BuiltinToString k\<close> is the string that \<open>Object.prototype[k]\<close> converts to.
\<close>

record engine =
  NumberToString :: "rat \<Rightarrow> string"
  StringToNumber :: "string \<Rightarrow> jsnum"
  BuiltinToString :: "string \<Rightarrow> string"
  toLocaleDateString :: "prim \<Rightarrow> string"

fun ToString :: "engine \<Rightarrow> prim \<Rightarrow> string" where
  "ToString E Undefined = ''undefined''"
| "ToString E Null = ''null''"
| "ToString E (Bool b) = show_bool b"
| "ToString E (Number NaN) = ''NaN''"
| "ToString E (Number (Fin r)) = NumberToString E r"
| "ToString E (Number PosInf) = ''Infinity''"
| "ToString E (Number NegInf) = ''-Infinity''"
| "ToString E (String s) = s"

fun ToNumber :: "engine \<Rightarrow> prim \<Rightarrow> jsnum" where
  "ToNumber E Undefined = NaN"
| "ToNumber E Null = Fin 0"
| "ToNumber E (Bool b) = Fin (if b then 1 else 0)"
| "ToNumber E (Number n) = n"
| "ToNumber E (String s) = StringToNumber E s"

fun num_add :: "jsnum \<Rightarrow> jsnum \<Rightarrow> jsnum" where
  "num_add NaN y = NaN"
| "num_add x NaN = NaN"
| "num_add (Fin a) (Fin b) = Fin (a + b)"
| "num_add PosInf NegInf = NaN"
| "num_add NegInf PosInf = NaN"
| "num_add PosInf y = PosInf"
| "num_add NegInf y = NegInf"
| "num_add (Fin a) y = y"

fun is_String :: "prim \<Rightarrow> bool" where
  "is_String (String s) = True"
| "is_String p = False"

text \<open>\<open>a + b\<close>: concatenation when either operand is a string, numeric addition otherwise.\<close>

definition js_add :: "engine \<Rightarrow> prim \<Rightarrow> prim \<Rightarrow> prim" where
  "js_add E a b =
     (if is_String a \<or> is_String b then String (ToString E a @ ToString E b)
      else Number (num_add (ToNumber E a) (ToNumber E b)))"

text \<open>\<open>a || b\<close>.\<close>

definition js_or :: "prim \<Rightarrow> prim \<Rightarrow> prim" where
  "js_or a b = (if ToBoolean a then a else b)"

text \<open>\<open>a === b\<close> on primitives: \<open>NaN\<close> equals nothing.\<close>

definition strict_eq :: "prim \<Rightarrow> prim \<Rightarrow> bool" where
  "strict_eq a b = (a = b \<and> a \<noteq> Number NaN)"

text \<open>\<open>x / xs.length\<close>: the divisor is a length, so it is zero or positive.\<close>

fun div_length :: "jsnum \<Rightarrow> nat \<Rightarrow> jsnum" where
  "div_length NaN n = NaN"
| "div_length PosInf n = PosInf"
| "div_length NegInf n = NegInf"
| "div_length (Fin a) n =
     (if n = 0 then (if a = 0 then NaN else if 0 < a then PosInf else NegInf)
      else Fin (a / of_nat n))"

text \<open>\<open>Math.round\<close>: the nearest integer, a tie going up.\<close>

fun Math_round :: "jsnum \<Rightarrow> jsnum" where
  "Math_round (Fin a) = Fin (of_int \<lfloor>a + 1 / 2\<rfloor>)"
| "Math_round x = x"

text \<open>\<open>[...new Set(xs)]\<close>: the distinct values in the order of their first occurrence
  (on primitives SameValueZero is equality of the model's values).\<close>

definition Set_values :: "'a list \<Rightarrow> 'a list" where
  "Set_values xs = foldl (\<lambda>acc x. if x \<in> set acc then acc else acc @ [x]) [] xs"

subsection \<open>Plain objects as dictionaries\<close>

text \<open>
  An array index is the canonical decimal form of an integer below \<open>2^32 - 1\<close>. The own
  keys of an object are ordered: array indices in ascending order, then the other keys in
  the order of their creation.
\<close>

definition read_nat :: "string \<Rightarrow> nat" where
  "read_nat k = foldl (\<lambda>n c. 10 * n + (of_char c - 48)) 0 k"

definition is_digit :: "char \<Rightarrow> bool" where
  "is_digit c = (48 \<le> (of_char c :: nat) \<and> (of_char c :: nat) \<le> 57)"

definition is_array_index :: "string \<Rightarrow> bool" where
  "is_array_index k =
     (k \<noteq> [] \<and> list_all is_digit k \<and> (k = ''0'' \<or> hd k \<noteq> CHR ''0'')
      \<and> read_nat k < 2 ^ 32 - 1)"

definition precedes :: "string \<Rightarrow> string \<Rightarrow> bool" where
  "precedes k' k = (is_array_index k' \<and> read_nat k' < read_nat k)"

text \<open>Creating or overwriting the own property \<open>k\<close>.\<close>

definition own_set :: "(string \<times> 'a) list \<Rightarrow> string \<Rightarrow> 'a \<Rightarrow> (string \<times> 'a) list" where
  "own_set ps k v =
     (if k \<in> set (map fst ps) then map (\<lambda>(k', v'). if k' = k then (k', v) else (k', v')) ps
      else if is_array_index k
      then takeWhile (\<lambda>(k', v'). precedes k' k) ps @ [(k, v)]
           @ dropWhile (\<lambda>(k', v'). precedes k' k) ps
      else ps @ [(k, v)])"

text \<open>The properties every plain object inherits from \<open>Object.prototype\<close> in a browser.\<close>

definition Object_prototype :: "string list" where
  "Object_prototype =
     [''constructor'', ''__defineGetter__'', ''__defineSetter__'', ''hasOwnProperty'',
      ''__lookupGetter__'', ''__lookupSetter__'', ''isPrototypeOf'',
      ''propertyIsEnumerable'', ''toString'', ''valueOf'', ''__proto__'',
      ''toLocaleString'']"

text \<open>
  Reading \<open>obj[k]\<close> from an object created as \<open>{}\<close>: an own property, else an inherited
  one (a function, or the prototype itself for \<open>__proto__\<close>), else \<open>undefined\<close>.
\<close>

datatype slot = Own prim | Inherited string | Absent

definition obj_get :: "(string \<times> prim) list \<Rightarrow> string \<Rightarrow> slot" where
  "obj_get ps k =
     (case map_of ps k of
        Some v \<Rightarrow> Own v
      | None \<Rightarrow> if k \<in> set Object_prototype then Inherited k else Absent)"

text \<open>
  Assigning a primitive to \<open>obj[k]\<close>: the inherited setter of \<open>__proto__\<close> ignores a value
  that is neither an object nor \<open>null\<close>; every other key becomes an own property.
\<close>

definition obj_set :: "(string \<times> prim) list \<Rightarrow> string \<Rightarrow> prim \<Rightarrow> (string \<times> prim) list" where
  "obj_set ps k v = (if k = ''__proto__'' then ps else own_set ps k v)"

text \<open>\<open>(obj[k] || 0) + 1\<close>: an inherited member is an object, so it is truthy and the
  sum is the concatenation of its string form and \<open>1\<close>.\<close>

definition increment :: "engine \<Rightarrow> slot \<Rightarrow> prim" where
  "increment E sl =
     (case sl of
        Own v \<Rightarrow> js_add E (js_or v (Number (Fin 0))) (Number (Fin 1))
      | Inherited k \<Rightarrow> String (BuiltinToString E k @ ToString E (Number (Fin 1)))
      | Absent \<Rightarrow> js_add E (js_or Undefined (Number (Fin 0))) (Number (Fin 1)))"

subsection \<open>The derived views\<close>

record stats =
  totalPosts :: nat
  uniqueTypes :: nat
  totalViews :: prim
  totalLikes :: prim

definition getStats :: "engine \<Rightarrow> row list \<Rightarrow> stats" where
  "getStats E rows =
     (let postTypes = Set_values (map (\<lambda>row. field row ''Post_Type'') rows);
          totalViews = foldl (\<lambda>sum row. js_add E sum (js_or (field row ''Views'') (Number (Fin 0))))
                         (Number (Fin 0)) rows;
          totalLikes = foldl (\<lambda>sum row. js_add E sum (js_or (field row ''Likes'') (Number (Fin 0))))
                         (Number (Fin 0)) rows
      in \<lparr>totalPosts = length rows, uniqueTypes = length postTypes,
          totalViews = totalViews, totalLikes = totalLikes\<rparr>)"

record post_type_stat =
  name :: string
  value' :: prim

text \<open>The key under which a row is counted: \<open>row.Post_Type\<close> converted to a property key.\<close>

definition post_type_key :: "engine \<Rightarrow> row \<Rightarrow> string" where
  "post_type_key E row = ToString E (field row ''Post_Type'')"

definition postTypeCounts :: "engine \<Rightarrow> row list \<Rightarrow> (string \<times> prim) list" where
  "postTypeCounts E rows =
     foldl (\<lambda>counts row.
              obj_set counts (post_type_key E row)
                (increment E (obj_get counts (post_type_key E row))))
       [] rows"

text \<open>The entries are \<open>{name: type, value: count}\<close> in the source.\<close>

definition getPostTypeStats :: "engine \<Rightarrow> row list \<Rightarrow> post_type_stat list" where
  "getPostTypeStats E rows =
     map (\<lambda>(type, n). \<lparr>name = type, value' = n\<rparr>) (postTypeCounts E rows)"

record engagement =
  date :: string
  likes :: prim
  shares :: prim
  comments :: prim
  views :: prim

definition getEngagementData :: "engine \<Rightarrow> row list \<Rightarrow> engagement list" where
  "getEngagementData E rows =
     map (\<lambda>row. \<lparr>date = toLocaleDateString E (field row ''Date''),
                 likes = field row ''Likes'', shares = field row ''Shares'',
                 comments = field row ''Comments'', views = field row ''Views''\<rparr>) rows"

text \<open>The entries are \<open>{name, likes, shares}\<close> in the source.\<close>

record average =
  avg_name :: prim
  avg_likes :: jsnum
  avg_shares :: jsnum

definition postTypes :: "row list \<Rightarrow> prim list" where
  "postTypes rows = Set_values (map (\<lambda>row. field row ''Post_Type'') rows)"

definition posts_of :: "row list \<Rightarrow> prim \<Rightarrow> row list" where
  "posts_of rows type = filter (\<lambda>row. strict_eq (field row ''Post_Type'') type) rows"

definition getAverageEngagement :: "engine \<Rightarrow> row list \<Rightarrow> average list" where
  "getAverageEngagement E rows =
     map (\<lambda>type.
            let posts = posts_of rows type;
                avgLikes = div_length
                  (ToNumber E (foldl (\<lambda>sum post. js_add E sum (field post ''Likes''))
                                 (Number (Fin 0)) posts))
                  (length posts);
                avgShares = div_length
                  (ToNumber E (foldl (\<lambda>sum post. js_add E sum (field post ''Shares''))
                                 (Number (Fin 0)) posts))
                  (length posts)
            in \<lparr>avg_name = type, avg_likes = Math_round avgLikes,
                avg_shares = Math_round avgShares\<rparr>)
       (postTypes rows)"

subsection \<open>Loading the CSV file\<close>


record column =
  col_field :: string
  headerName :: string
  width :: nat
  editable :: bool

record dashboard_state =
  rows :: "row list"
  columns :: "column list"
  loading :: bool
  error_message :: "string option"






subsection \<open>Groups\<close>

text \<open>The number of rows counted under the key \<open>k\<close>.\<close>

definition group_size :: "engine \<Rightarrow> row list \<Rightarrow> string \<Rightarrow> nat" where
  "group_size E rs k = length (filter (\<lambda>row. post_type_key E row = k) rs)"

subsection \<open>Example data\<close>

text \<open>
  The rows loaded from the example of the specification,
  \<^verbatim>\<open>Post_Type,Views,Likes / video,100,10 / image,50,5 / video,200,20\<close>, a stand-in engine
  for evaluations that convert no number to a string and no string to a number, and a
  loader for the CSV \<^verbatim>\<open>Post_Type,Likes / video,10 / ,\<close>: the parser returns the row of
  empty fields as a record of \<open>null\<close> values.
\<close>

definition example_engine :: engine where
  "example_engine = \<lparr>NumberToString = (\<lambda>r. []), StringToNumber = (\<lambda>s. NaN),
                      BuiltinToString = (\<lambda>k. []), toLocaleDateString = (\<lambda>v. [])\<rparr>"

definition example_rows :: "row list" where
  "example_rows =
     [[(''id'', CNum 1), (''Post_Type'', CStr ''video''), (''Views'', CNum 100), (''Likes'', CNum 10)],
      [(''id'', CNum 2), (''Post_Type'', CStr ''image''), (''Views'', CNum 50), (''Likes'', CNum 5)],
      [(''id'', CNum 3), (''Post_Type'', CStr ''video''), (''Views'', CNum 200), (''Likes'', CNum 20)]]"


section \<open>Properties of the flow client\<close>

subsection \<open>Reading properties\<close>

lemma get_truthy: "truthy v \<Longrightarrow> get v k = Inr (opt_get v k)"
  by (cases "(v, k)" rule: get.cases) (auto simp: opt_get_def)

lemma opt_get_falsy: "\<not> truthy v \<Longrightarrow> opt_get v k = Prim Undefined"
  by (cases "(v, k)" rule: get.cases) (auto simp: opt_get_def)

lemma js_and_get: "js_and a (\<lambda>x. get x k) = Inr (if truthy a then opt_get a k else a)"
  by (simp add: js_and_def get_truthy)

lemma at0_first_of: "truthy v \<Longrightarrow> at0 v = Inr (first_of v)"
  by (cases v rule: at0.cases) (auto simp: first_of_def split: sum.splits option.splits)

lemma first_of_falsy: "\<not> truthy v \<Longrightarrow> first_of v = Prim Undefined"
  by (cases v rule: at0.cases) (auto simp: first_of_def)

lemma truthy_opt_get: "truthy (opt_get v k) \<Longrightarrow> truthy v"
  by (cases "truthy v") (simp_all add: opt_get_falsy)

lemma truthy_first_of: "truthy (first_of v) \<Longrightarrow> truthy v"
  by (cases "truthy v") (simp_all add: first_of_falsy)

lemma botResponse_eq:
  assumes "truthy co"
  shows "botResponse co = Inr (case extract_by_shape co of Some t \<Rightarrow> t | None \<Rightarrow> Prim (String []))"
  using assms
  by (auto simp: botResponse_def extract_by_shape_def first_truthy_def get_truthy js_and_get opt_get_falsy)

subsection \<open>Response normalization\<close>

text \<open>
  C1, as the code has it. When the first output's first nested output is present, the
  reply is looked for by shape: under \<open>outputs.message\<close> when that is present (variant (a),
  then (b)), else directly in the component output (variant (c), then (d)). A reply found
  is appended as a bot message; when none is found the error state becomes
  \<open>Could not extract bot response\<close> and no message is appended. When the response has no
  first output the error state becomes \<open>Invalid response from server\<close>.
\<close>

theorem handle_response_by_shape:
  "(truthy (first_nested_output response) \<longrightarrow>
      handle_response response s =
        Inr (case extract_by_shape (first_nested_output response) of
               Some t \<Rightarrow> s\<lparr>messages := messages s @ [\<lparr>type' = Bot, text' = t\<rparr>]\<rparr>
             | None \<Rightarrow> s\<lparr>error := String ''Could not extract bot response''\<rparr>)) \<and>
   (\<not> truthy (first_of (path response [''outputs''])) \<longrightarrow>
      handle_response response s = Inr (s\<lparr>error := String ''Invalid response from server''\<rparr>))"
proof (intro conjI impI)
  let ?fo = "first_of (path response [''outputs''])"
  assume t: "truthy (first_nested_output response)"
  then have o: "truthy (opt_get ?fo ''outputs'')"
    unfolding first_nested_output_def path.simps by (rule truthy_first_of)
  then have fo: "truthy ?fo" by (rule truthy_opt_get)
  then have r2: "truthy (opt_get response ''outputs'')"
    unfolding path.simps by (rule truthy_first_of)
  then have r1: "truthy response" by (rule truthy_opt_get)
  note r = r1 r2
  let ?co = "first_nested_output response"
  have co: "?co = first_of (opt_get ?fo ''outputs'')"
    by (simp add: first_nested_output_def)
  have fo': "?fo = first_of (opt_get response ''outputs'')"
    by (simp add:)
  have step: "handle_response response s =
      bind_err (botResponse ?co) (\<lambda>b.
         if truthy b
         then Inr (s\<lparr>messages := messages s @ [\<lparr>type' = Bot, text' = b\<rparr>]\<rparr>)
         else Inr (s\<lparr>error := String ''Could not extract bot response''\<rparr>))"
    using t fo o r unfolding co fo'
    by (simp add: handle_response_def js_and_def get_truthy at0_first_of)
  show "handle_response response s =
        Inr (case extract_by_shape (first_nested_output response) of
               Some t \<Rightarrow> s\<lparr>messages := messages s @ [\<lparr>type' = Bot, text' = t\<rparr>]\<rparr>
             | None \<Rightarrow> s\<lparr>error := String ''Could not extract bot response''\<rparr>)"
  proof (cases "extract_by_shape ?co")
    case None
    then show ?thesis by (simp add: step botResponse_eq[OF t])
  next
    case (Some x)
    then have "truthy x"
      by (auto simp: extract_by_shape_def first_truthy_def find_Some_iff split: if_splits)
    with Some show ?thesis by (simp add: step botResponse_eq[OF t])
  qed
next
  assume f: "\<not> truthy (first_of (path response [''outputs'']))"
  show "handle_response response s = Inr (s\<lparr>error := String ''Invalid response from server''\<rparr>)"
    using f unfolding path.simps
    by (cases "truthy response"; cases "truthy (opt_get response ''outputs'')")
       (simp_all add: handle_response_def js_and_def get_truthy at0_first_of)
qed

theorem handle_response_by_shape_witness:
  "truthy (first_nested_output (Object [(''outputs'', Array [Object [(''outputs'', Array [
      Object [(''text'', Prim (String ''hello''))]])]])])) \<and>
   handle_response (Object [(''outputs'', Array [Object [(''outputs'', Array [
      Object [(''text'', Prim (String ''hello''))]])]])])
     \<lparr>inputValue = [], messages = [], isLoading = True, error = String []\<rparr>
   = Inr \<lparr>inputValue = [], messages = [\<lparr>type' = Bot, text' = Prim (String ''hello'')\<rparr>],
          isLoading = True, error = String []\<rparr> \<and>
   \<not> truthy (first_of (path (Object []) [''outputs''])) \<and>
   handle_response (Object []) \<lparr>inputValue = [], messages = [], isLoading = True, error = String []\<rparr>
   = Inr \<lparr>inputValue = [], messages = [], isLoading = True,
          error = String ''Invalid response from server''\<rparr>"
  using handle_response_by_shape [of "Object [(''outputs'', Array [Object [(''outputs'', Array [
      Object [(''text'', Prim (String ''hello''))]])]])]"
      "\<lparr>inputValue = [], messages = [], isLoading = True, error = String []\<rparr>"]
    handle_response_by_shape [of "Object []"
      "\<lparr>inputValue = [], messages = [], isLoading = True, error = String []\<rparr>"]
  by (simp add: first_nested_output_def first_of_def opt_get_def extract_by_shape_def first_truthy_def)

text \<open>
  A first output without a nested output is passed over in silence: the \<open>if\<close> of line
  138 has no \<open>else\<close>, and the state is left as it is.
\<close>

lemma handle_response_no_nested_output:
  "handle_response (Object [(''outputs'', Array [Object []])]) s = Inr s"
  by (simp add: handle_response_def js_and_def)

text \<open>
  C1 as stated fails: a component output whose \<open>outputs.message\<close> is an object without
  text and whose \<open>message.text\<close> is \<open>hi\<close> matches variant (c), and the search of the
  specification returns \<open>hi\<close>; the code never looks at variant (c) once \<open>outputs.message\<close>
  is present, and reports that it could not extract a response.
\<close>

theorem handle_response_order_counterexample:
  "extract_spec (Object [(''outputs'', Object [(''message'', Object [])]),
                          (''message'', Object [(''text'', Prim (String ''hi''))])]) = Some (Prim (String ''hi'')) \<and>
  handle_response (Object [(''outputs'', Array [Object [(''outputs'', Array [
      Object [(''outputs'', Object [(''message'', Object [])]),
                          (''message'', Object [(''text'', Prim (String ''hi''))])]])]])])
     \<lparr>inputValue = [], messages = [], isLoading = True, error = String []\<rparr>
   = Inr \<lparr>inputValue = [], messages = [], isLoading = True, error = String ''Could not extract bot response''\<rparr>"
  by (simp add: extract_spec_def first_truthy_def handle_response_def botResponse_def js_and_def opt_get_def)

subsection \<open>Failures of \<open>post\<close>\<close>

lemma show_nat_hd: "show_nat n \<noteq> [] \<and> hd (show_nat n) \<in> digit_char ` {0..<10}"
proof (induction n rule: show_nat.induct)
  case (1 n)
  show ?case
  proof (cases "n < 10")
    case True
    then show ?thesis by (subst show_nat.simps, subst show_nat.simps) auto
  next
    case False
    with 1 show ?thesis by (subst show_nat.simps, subst show_nat.simps) auto
  qed
qed

lemma digit_not_I: "CHR ''I'' \<notin> digit_char ` {0..<10}"
proof
  assume "CHR ''I'' \<in> digit_char ` {0..<10}"
  then obtain d :: nat where d: "d < 10" "CHR ''I'' = char_of (48 + d)"
    by (auto simp: digit_char_def)
  from d(2) have "(of_char (CHR ''I'') :: nat) = of_char (char_of (48 + d))" by simp
  with d(1) show False by (simp add: of_char_of)
qed

lemma invalid_json_not_status: "Error ''Invalid JSON response from server'' \<noteq> status_error h r j"
  using show_nat_hd[of "status r"] digit_not_I
  by (cases "show_nat (status r)") (auto simp: status_error_def)

lemma show_nat_500: "show_nat 500 = ''500''"
  by code_simp

text \<open>
  C2, as the code has it. When the status is outside 200 to 299 and the body parses as
  JSON, \<open>post\<close> throws the error of line 34, whose message holds the status code, the
  status text and the parsed body serialised again. When the body does not parse, \<open>post\<close>
  throws the error of line 30, whatever the status.
\<close>

theorem post_status_error:
  assumes "fetch h (post_request h client endpoint b) = Inr r"
  shows "((status r < 200 \<or> 299 < status r) \<and> JSON_parse h (response_text r) = Some j \<longrightarrow>
            fst (post h client endpoint b) = Inl (status_error h r j)) \<and>
         (JSON_parse h (response_text r) = None \<longrightarrow>
            fst (post h client endpoint b) = Inl (Error ''Invalid JSON response from server''))"
  using assms by (auto simp: post_def ok_def)

theorem post_status_error_witness:
  "fst (post \<lparr>fetch = (\<lambda>req. Inr \<lparr>status = 500, statusText = ''Internal Server Error'',
                                  response_text = ''{}''\<rparr>),
              JSON_parse = [''{}'' \<mapsto> Object []], JSON_stringify = (\<lambda>j. ''{}'')\<rparr>
          \<lparr>baseURL = ''/api'', applicationToken = ''token''\<rparr> ''/lf/g/api/v1/run/f?stream=false''
          (Object []))
   = Inl (Error ''500 Internal Server Error - {}'') \<and>
   fst (post \<lparr>fetch = (\<lambda>req. Inr \<lparr>status = 404, statusText = ''Not Found'',
                                  response_text = ''Not Found''\<rparr>),
              JSON_parse = [''{}'' \<mapsto> Object []], JSON_stringify = (\<lambda>j. ''{}'')\<rparr>
          \<lparr>baseURL = ''/api'', applicationToken = ''token''\<rparr> ''/lf/g/api/v1/run/f?stream=false''
          (Object []))
   = Inl (Error ''Invalid JSON response from server'')"
  using post_status_error [where h = "\<lparr>fetch = (\<lambda>req. Inr \<lparr>status = 500,
                 statusText = ''Internal Server Error'', response_text = ''{}''\<rparr>),
              JSON_parse = [''{}'' \<mapsto> Object []], JSON_stringify = (\<lambda>j. ''{}'')\<rparr>"
          and client = "\<lparr>baseURL = ''/api'', applicationToken = ''token''\<rparr>"
          and endpoint = "''/lf/g/api/v1/run/f?stream=false''" and b = "Object []"
          and r = "\<lparr>status = 500, statusText = ''Internal Server Error'', response_text = ''{}''\<rparr>"
          and j = "Object []"]
        post_status_error [where h = "\<lparr>fetch = (\<lambda>req. Inr \<lparr>status = 404,
                 statusText = ''Not Found'', response_text = ''Not Found''\<rparr>),
              JSON_parse = [''{}'' \<mapsto> Object []], JSON_stringify = (\<lambda>j. ''{}'')\<rparr>"
          and client = "\<lparr>baseURL = ''/api'', applicationToken = ''token''\<rparr>"
          and endpoint = "''/lf/g/api/v1/run/f?stream=false''" and b = "Object []"
          and r = "\<lparr>status = 404, statusText = ''Not Found'', response_text = ''Not Found''\<rparr>"
          and j = "Object []"]
  by (simp add: status_error_def show_nat_500)

text \<open>
  C2 as stated fails: the body is parsed before the status is looked at, so a response
  with status 500 and a body that is not JSON throws the error of line 30, which holds
  neither the status code nor the body.
\<close>

theorem post_500_invalid_body:
  "fst (post \<lparr>fetch = (\<lambda>req. Inr \<lparr>status = 500, statusText = ''Internal Server Error'',
                                  response_text = ''<html>''\<rparr>),
              JSON_parse = Map.empty, JSON_stringify = (\<lambda>j. [])\<rparr>
          \<lparr>baseURL = ''/api'', applicationToken = ''token''\<rparr> ''/lf/g/api/v1/run/f?stream=false''
          (Object []))
   = Inl (Error ''Invalid JSON response from server'')"
  by (simp add: post_def)

text \<open>
  C3, as the code has it. When the body of the response is not JSON, \<open>post\<close> throws
  \<open>new Error('Invalid JSON response from server')\<close>, whatever the status; its message
  differs from the message of the error of line 34 for every response and every parsed
  body (that one begins with a digit), and the message is all that tells the two apart:
  both are plain \<open>Error\<close> objects. \<open>runFlow\<close> does not pass the error on: whatever
  \<open>initiateSession\<close> throws, it calls \<open>onError('Error initiating session')\<close> and returns
  \<open>undefined\<close>.
\<close>

theorem post_invalid_body:
  "(fetch h (post_request h client endpoint b) = Inr r \<and> JSON_parse h (response_text r) = None \<longrightarrow>
      fst (post h client endpoint b) = Inl (Error ''Invalid JSON response from server'') \<and>
      (\<forall>r' j. fst (post h client endpoint b) \<noteq> Inl (status_error h r' j))) \<and>
   (fst (initiateSession h client flowId langflowId v inputType outputType stream tw) = Inl e \<longrightarrow>
      runFlow h client flowId langflowId v inputType outputType tw stream =
        \<lparr>returned = Prim Undefined,
         requests = snd (initiateSession h client flowId langflowId v inputType outputType stream tw),
         streamUrl = None, onError_called = True\<rparr>)"
  using invalid_json_not_status
  by (auto simp: post_def runFlow_def split: prod.splits)

theorem post_invalid_body_witness:
  "fst (post \<lparr>fetch = (\<lambda>req. Inr \<lparr>status = 200, statusText = ''OK'', response_text = ''<html>''\<rparr>),
              JSON_parse = Map.empty, JSON_stringify = (\<lambda>j. [])\<rparr>
          \<lparr>baseURL = ''/api'', applicationToken = ''token''\<rparr> ''/lf/g/api/v1/run/f?stream=false''
          (Object []))
   = Inl (Error ''Invalid JSON response from server'') \<and>
   returned (runFlow \<lparr>fetch = (\<lambda>req. Inr \<lparr>status = 200, statusText = ''OK'', response_text = ''<html>''\<rparr>),
              JSON_parse = Map.empty, JSON_stringify = (\<lambda>j. [])\<rparr>
          \<lparr>baseURL = ''/api'', applicationToken = ''token''\<rparr> ''f'' ''g'' ''hi'' ''chat'' ''chat''
          (Object []) False)
   = Prim Undefined"
  using post_invalid_body [where h = "\<lparr>fetch = (\<lambda>req. Inr \<lparr>status = 200, statusText = ''OK'',
                 response_text = ''<html>''\<rparr>),
              JSON_parse = Map.empty, JSON_stringify = (\<lambda>j. [])\<rparr>"
          and client = "\<lparr>baseURL = ''/api'', applicationToken = ''token''\<rparr>"
          and endpoint = "''/lf/g/api/v1/run/f?stream=false''" and b = "Object []"
          and r = "\<lparr>status = 200, statusText = ''OK'', response_text = ''<html>''\<rparr>"
          and flowId = "''f''" and langflowId = "''g''" and v = "''hi''" and inputType = "''chat''"
          and outputType = "''chat''" and stream = False and tw = "Object []"
          and e = "Error ''Invalid JSON response from server''"]
  by (simp add: initiateSession_def post_def)

text \<open>
  C3 as stated fails: the code has no kinds of error. A response with status 200 whose
  body is not JSON and a response with status 500 whose body is JSON make \<open>runFlow\<close> do
  the same thing: the same request, the same call of \<open>onError\<close>, \<open>undefined\<close> returned.
\<close>

theorem runFlow_same_for_both_failures:
  "runFlow \<lparr>fetch = (\<lambda>req. Inr \<lparr>status = 200, statusText = ''OK'', response_text = ''<html>''\<rparr>),
            JSON_parse = [''{}'' \<mapsto> Object []], JSON_stringify = (\<lambda>j. ''{}'')\<rparr>
     \<lparr>baseURL = ''/api'', applicationToken = ''token''\<rparr> ''f'' ''g'' ''hi'' ''chat'' ''chat''
     (Object []) False
   = runFlow \<lparr>fetch = (\<lambda>req. Inr \<lparr>status = 500, statusText = ''Internal Server Error'',
                                  response_text = ''{}''\<rparr>),
              JSON_parse = [''{}'' \<mapsto> Object []], JSON_stringify = (\<lambda>j. ''{}'')\<rparr>
       \<lparr>baseURL = ''/api'', applicationToken = ''token''\<rparr> ''f'' ''g'' ''hi'' ''chat'' ''chat''
       (Object []) False \<and>
   onError_called
     (runFlow \<lparr>fetch = (\<lambda>req. Inr \<lparr>status = 200, statusText = ''OK'', response_text = ''<html>''\<rparr>),
                JSON_parse = [''{}'' \<mapsto> Object []], JSON_stringify = (\<lambda>j. ''{}'')\<rparr>
        \<lparr>baseURL = ''/api'', applicationToken = ''token''\<rparr> ''f'' ''g'' ''hi'' ''chat'' ''chat''
        (Object []) False) \<and>
   returned
     (runFlow \<lparr>fetch = (\<lambda>req. Inr \<lparr>status = 200, statusText = ''OK'', response_text = ''<html>''\<rparr>),
                JSON_parse = [''{}'' \<mapsto> Object []], JSON_stringify = (\<lambda>j. ''{}'')\<rparr>
        \<lparr>baseURL = ''/api'', applicationToken = ''token''\<rparr> ''f'' ''g'' ''hi'' ''chat'' ''chat''
        (Object []) False) = Prim Undefined"
  by (simp add: runFlow_def initiateSession_def post_def post_request_def ok_def)

subsection \<open>Blank input\<close>

lemma trim_empty: "trim s = [] \<longleftrightarrow> (\<forall>c \<in> set s. WhiteSpace c)"
proof -
  have "(\<forall>x \<in> set (dropWhile WhiteSpace s). WhiteSpace x) \<longleftrightarrow> dropWhile WhiteSpace s = []"
  proof
    assume a: "\<forall>x \<in> set (dropWhile WhiteSpace s). WhiteSpace x"
    show "dropWhile WhiteSpace s = []"
    proof (rule ccontr)
      assume n: "dropWhile WhiteSpace s \<noteq> []"
      then have "\<not> WhiteSpace (hd (dropWhile WhiteSpace s))" by (rule hd_dropWhile)
      with a n show False by simp
    qed
  qed (auto dest: set_dropWhileD)
  moreover have "dropWhile WhiteSpace s = [] \<longleftrightarrow> (\<forall>c \<in> set s. WhiteSpace c)"
    by (simp add: dropWhile_eq_Nil_conv)
  ultimately show ?thesis by (simp add: trim_def dropWhile_eq_Nil_conv)
qed

text \<open>
  C9. When the input value is empty or holds whitespace only, \<open>handleSubmit\<close> returns at
  once: the state (messages, error, loading flag, input value) is unchanged and no request
  is sent.
\<close>

theorem handleSubmit_blank:
  assumes "\<forall>c \<in> set (inputValue s). WhiteSpace c"
  shows "handleSubmit h e s = (s, [])"
  using assms by (simp add: handleSubmit_def trim_empty)

theorem handleSubmit_blank_witness:
  "handleSubmit \<lparr>fetch = (\<lambda>req. Inl (TypeError ''Failed to fetch'')), JSON_parse = Map.empty,
                  JSON_stringify = (\<lambda>j. [])\<rparr>
     \<lparr>PUBLIC_URL = [], REACT_APP_FLOW_ID = ''f'', REACT_APP_LANGFLOW_ID = ''g'',
      REACT_APP_ASTRA_TOKEN = ''token''\<rparr>
     \<lparr>inputValue = ''   '', messages = [], isLoading = False, error = String ''previous''\<rparr>
   = (\<lparr>inputValue = ''   '', messages = [], isLoading = False, error = String ''previous''\<rparr>, [])"
  using handleSubmit_blank [of "\<lparr>inputValue = ''   '', messages = [], isLoading = False, error = String ''previous''\<rparr>"
     "\<lparr>fetch = (\<lambda>req. Inl (TypeError ''Failed to fetch'')), JSON_parse = Map.empty,
                  JSON_stringify = (\<lambda>j. [])\<rparr>"
     "\<lparr>PUBLIC_URL = [], REACT_APP_FLOW_ID = ''f'', REACT_APP_LANGFLOW_ID = ''g'',
      REACT_APP_ASTRA_TOKEN = ''token''\<rparr>"]
  by (simp add: WhiteSpace_def)

section \<open>Properties of the dashboard\<close>

subsection \<open>Own properties\<close>

lemma map_fst_update:
  "map (fst \<circ> (\<lambda>(k', v'). if k' = k then (k', v) else (k', v'))) ps = map fst ps"
  by (induction ps) auto

lemma map_of_update_other:
  "x \<noteq> k \<Longrightarrow> map_of (map (\<lambda>(k', v'). if k' = k then (k', v) else (k', v')) ps) x = map_of ps x"
  by (induction ps) auto

lemma map_of_update_same:
  "k \<in> fst ` set ps \<Longrightarrow>
   map_of (map (\<lambda>(k', v'). if k' = k then (k', v) else (k', v')) ps) k = Some v"
  by (induction ps) auto

lemma map_of_update:
  "k \<in> fst ` set ps \<Longrightarrow>
   map_of (map (\<lambda>(k', v'). if k' = k then (k', v) else (k', v')) ps) = (map_of ps)(k \<mapsto> v)"
  by (rule ext) (simp add: map_of_update_other map_of_update_same)

lemma map_of_insert:
  assumes "k \<notin> set (map fst ps)"
  shows "map_of (takeWhile P ps @ [(k, v)] @ dropWhile P ps) = (map_of ps)(k \<mapsto> v)"
proof -
  have "map_of (takeWhile P ps) k = None"
    using assms by (metis map_of_eq_None_iff set_takeWhileD image_set subsetD subsetI image_mono)
  moreover have "map_of ps = map_of (takeWhile P ps @ dropWhile P ps)" by simp
  ultimately show ?thesis
    unfolding map_of_append by (auto simp: fun_eq_iff map_add_def split: option.splits)
qed

lemma map_of_snoc: "k \<notin> fst ` set ps \<Longrightarrow> map_of (ps @ [(k, v)]) = (map_of ps)(k \<mapsto> v)"
  by (induction ps) (auto simp: fun_eq_iff)

lemma map_of_own_set: "map_of (own_set ps k v) = (map_of ps)(k \<mapsto> v)"
  unfolding own_set_def
  using map_of_update[of k ps v]
    map_of_insert[where k=k and ps=ps and v=v and P="\<lambda>(k', v'). precedes k' k"]
    map_of_snoc[of k ps v]
  by (auto simp del: map_of_append)

lemma distinct_own_set:
  assumes "distinct (map fst ps)"
  shows "distinct (map fst (own_set ps k v))"
proof (cases "k \<in> set (map fst ps)")
  case True
  then show ?thesis using assms by (simp add: own_set_def map_fst_update)
next
  case False
  let ?P = "\<lambda>(k', v'). precedes k' k"
  have "distinct (map fst (takeWhile ?P ps @ dropWhile ?P ps))" using assms by simp
  moreover have "k \<notin> set (map fst (takeWhile ?P ps))" "k \<notin> set (map fst (dropWhile ?P ps))"
    using False by (auto dest: set_takeWhileD set_dropWhileD)
  ultimately have "distinct (map fst (takeWhile ?P ps @ [(k, v)] @ dropWhile ?P ps))"
    by (simp del: takeWhile_dropWhile_id)
  with False assms show ?thesis by (simp add: own_set_def)
qed

subsection \<open>Counting rows per category\<close>

lemma group_size_snoc:
  "group_size E (rs @ [row]) k = group_size E rs k + (if post_type_key E row = k then 1 else 0)"
  by (simp add: group_size_def)

lemma postTypeCounts_snoc:
  "postTypeCounts E (rs @ [row]) =
     obj_set (postTypeCounts E rs) (post_type_key E row)
       (increment E (obj_get (postTypeCounts E rs) (post_type_key E row)))"
  by (simp add: postTypeCounts_def)

lemma postTypeCounts_inv:
  assumes "\<forall>row \<in> set rs. post_type_key E row \<notin> set Object_prototype"
  shows "distinct (map fst (postTypeCounts E rs)) \<and>
         (\<forall>k. map_of (postTypeCounts E rs) k =
              (if group_size E rs k = 0 then None
               else Some (Number (Fin (of_nat (group_size E rs k))))))"
  using assms
proof (induction rs rule: rev_induct)
  case Nil
  then show ?case by (simp add: postTypeCounts_def group_size_def)
next
  case (snoc row rs)
  let ?ps = "postTypeCounts E rs"
  let ?k = "post_type_key E row"
  from snoc have IH: "distinct (map fst ?ps)"
    "\<And>k. map_of ?ps k = (if group_size E rs k = 0 then None
               else Some (Number (Fin (of_nat (group_size E rs k)))))"
    by auto
  from snoc.prems have np: "?k \<notin> set Object_prototype" by simp
  then have nproto: "?k \<noteq> ''__proto__''" by (auto simp: Object_prototype_def)
  have inc: "increment E (obj_get ?ps ?k) = Number (Fin (of_nat (group_size E rs ?k + 1)))"
    using np by (simp add: obj_get_def IH(2) increment_def js_add_def js_or_def)
  have eq: "postTypeCounts E (rs @ [row]) =
      own_set ?ps ?k (Number (Fin (of_nat (group_size E rs ?k + 1))))"
    by (simp only: postTypeCounts_snoc inc obj_set_def nproto if_False)
  show ?case
    unfolding eq using IH(1)
    by (auto simp: distinct_own_set map_of_own_set IH(2) group_size_snoc)
qed

lemma sum_group_sizes:
  "finite A \<Longrightarrow> f ` set xs \<subseteq> A \<Longrightarrow> (\<Sum>k\<in>A. length (filter (\<lambda>r. f r = k) xs)) = length xs"
proof (induction xs)
  case Nil
  then show ?case by simp
next
  case (Cons x xs)
  then have fx: "f x \<in> A" and IH: "(\<Sum>k\<in>A. length (filter (\<lambda>r. f r = k) xs)) = length xs"
    by auto
  have "(\<Sum>k\<in>A. length (filter (\<lambda>r. f r = k) (x # xs)))
        = (\<Sum>k\<in>A. (if f x = k then 1 else 0) + length (filter (\<lambda>r. f r = k) xs))"
    by (rule sum.cong) auto
  also have "\<dots> = (\<Sum>k\<in>A. if f x = k then 1 else 0) + length xs"
    by (simp add: sum.distrib IH)
  also have "(\<Sum>k\<in>A. if f x = k then 1 else (0::nat)) = 1"
    using Cons.prems(1) fx by (simp add: sum.delta')
  finally show ?case by simp
qed

lemma keys_postTypeCounts:
  assumes "\<forall>row \<in> set rs. post_type_key E row \<notin> set Object_prototype"
  shows "set (map fst (postTypeCounts E rs)) = post_type_key E ` set rs"
proof -
  have "fst ` set (postTypeCounts E rs) = dom (map_of (postTypeCounts E rs))"
    by (simp add: dom_map_of_conv_image_fst)
  also have "\<dots> = {k. group_size E rs k \<noteq> 0}"
    using postTypeCounts_inv[OF assms] by (auto simp: dom_def)
  also have "\<dots> = post_type_key E ` set rs"
    by (auto simp: group_size_def filter_empty_conv)
  finally show ?thesis by simp
qed

lemma names_getPostTypeStats: "map name (getPostTypeStats E rs) = map fst (postTypeCounts E rs)"
  by (simp add: getPostTypeStats_def split_def comp_def)

text \<open>
  Where the counting works. When no row's key is the name of a property of
  \<open>Object.prototype\<close>, \<open>getPostTypeStats\<close> counts every row: the rows are grouped by
  \<open>String(row.Post_Type)\<close>, the entries have distinct names, the names are the keys of
  the rows, the value of an entry is the number of rows with its key, which is positive,
  and the group sizes add up to the number of rows.
\<close>

lemma getPostTypeStats_groups:
  assumes "\<forall>row \<in> set rs. post_type_key E row \<notin> set Object_prototype"
  shows "distinct (map name (getPostTypeStats E rs)) \<and>
         set (map name (getPostTypeStats E rs)) = post_type_key E ` set rs \<and>
         (\<forall>e \<in> set (getPostTypeStats E rs).
            value' e = Number (Fin (of_nat (group_size E rs (name e)))) \<and>
            0 < group_size E rs (name e)) \<and>
         (\<Sum>e\<leftarrow>getPostTypeStats E rs. group_size E rs (name e)) = length rs"
proof (intro conjI)
  note inv = postTypeCounts_inv[OF assms]
  show d: "distinct (map name (getPostTypeStats E rs))"
    using inv by (simp add: names_getPostTypeStats)
  show k: "set (map name (getPostTypeStats E rs)) = post_type_key E ` set rs"
    using keys_postTypeCounts[OF assms] by (simp only: names_getPostTypeStats)
  show "\<forall>e \<in> set (getPostTypeStats E rs).
            value' e = Number (Fin (of_nat (group_size E rs (name e)))) \<and>
            0 < group_size E rs (name e)"
  proof
    fix e assume "e \<in> set (getPostTypeStats E rs)"
    then obtain k v where kv: "(k, v) \<in> set (postTypeCounts E rs)" and e: "e = \<lparr>name = k, value' = v\<rparr>"
      by (auto simp: getPostTypeStats_def)
    from inv have "distinct (map fst (postTypeCounts E rs))" by simp
    with kv have "map_of (postTypeCounts E rs) k = Some v" by (rule map_of_is_SomeI[rotated])
    with inv have "group_size E rs k \<noteq> 0 \<and> v = Number (Fin (of_nat (group_size E rs k)))"
      by (auto split: if_splits)
    with e show "value' e = Number (Fin (of_nat (group_size E rs (name e)))) \<and>
            0 < group_size E rs (name e)" by simp
  qed
  have "(\<Sum>e\<leftarrow>getPostTypeStats E rs. group_size E rs (name e))
        = (\<Sum>k\<leftarrow>map name (getPostTypeStats E rs). group_size E rs k)"
    by (simp add: comp_def)
  also have "\<dots> = (\<Sum>k\<in>set (map name (getPostTypeStats E rs)). group_size E rs k)"
    using d by (rule sum_list_distinct_conv_sum_set)
  also have "\<dots> = length rs"
    unfolding k group_size_def by (rule sum_group_sizes) auto
  finally show "(\<Sum>e\<leftarrow>getPostTypeStats E rs. group_size E rs (name e)) = length rs" .
qed

lemma getPostTypeStats_groups_example:
  "distinct (map name (getPostTypeStats example_engine example_rows)) \<and>
   (\<Sum>e\<leftarrow>getPostTypeStats example_engine example_rows.
      group_size example_engine example_rows (name e)) = 3"
proof -
  have h: "\<forall>row \<in> set example_rows. post_type_key example_engine row \<notin> set Object_prototype"
    by (simp add: example_rows_def post_type_key_def field_def Object_prototype_def)
  from getPostTypeStats_groups [OF h] show ?thesis
    by (simp add: example_rows_def)
qed

text \<open>
  C10 fails on the code, by the defect of C5. The CSV
  \<^verbatim>\<open>Post_Type,Likes / __proto__,1 / ,2\<close> loads as two rows, the second with a \<open>null\<close>
  type. The row of type \<open>null\<close> is counted under the entry \<open>null\<close>; the row of type
  \<open>__proto__\<close> is counted under no entry, because the write of a string to \<open>__proto__\<close>
  is ignored: the entries do not cover the rows.
\<close>

theorem getPostTypeStats_proto_and_null:
  "getPostTypeStats E
     [[(''id'', CNum 1), (''Post_Type'', CStr ''__proto__''), (''Likes'', CNum 1)],
      [(''id'', CNum 2), (''Post_Type'', CNull), (''Likes'', CNum 2)]]
   = [\<lparr>name = ''null'', value' = Number (Fin 1)\<rparr>]"
  by code_simp

text \<open>
  C5 fails on the code. The counts are kept in a plain object, which inherits
  \<open>__proto__\<close>: for a row of type \<open>__proto__\<close> the read yields the prototype, and the
  write of a string to \<open>__proto__\<close> is ignored. The CSV
  \<^verbatim>\<open>Post_Type,Likes / __proto__,1\<close> loads as one row, \<open>getStats\<close> counts one post, and
  \<open>getPostTypeStats\<close> emits no entry: the counts add up to 0.
\<close>

theorem getPostTypeStats_proto_row:
  "getPostTypeStats E [[(''id'', CNum 1), (''Post_Type'', CStr ''__proto__''), (''Likes'', CNum 1)]] = []
   \<and> totalPosts (getStats E [[(''id'', CNum 1), (''Post_Type'', CStr ''__proto__''), (''Likes'', CNum 1)]]) = 1"
  by (simp add: getPostTypeStats_def postTypeCounts_def post_type_key_def field_def obj_set_def getStats_def Let_def)

subsection \<open>The time series\<close>

text \<open>
  C8. \<open>getEngagementData\<close> returns one record per row, the record at position \<open>i\<close> built
  from the row at position \<open>i\<close>: the order of the rows is kept, nothing is sorted.
\<close>

theorem getEngagementData_in_row_order:
  "length (getEngagementData E rs) = length rs \<and>
   (\<forall>i < length rs.
      getEngagementData E rs ! i =
        \<lparr>date = toLocaleDateString E (field (rs ! i) ''Date''),
         likes = field (rs ! i) ''Likes'', shares = field (rs ! i) ''Shares'',
         comments = field (rs ! i) ''Comments'', views = field (rs ! i) ''Views''\<rparr>)"
  by (simp add: getEngagementData_def)

theorem getEngagementData_in_row_order_witness:
  "length (getEngagementData example_engine example_rows) = 3 \<and>
   likes (getEngagementData example_engine example_rows ! 1) = Number (Fin 5)"
proof -
  note t = getEngagementData_in_row_order [of example_engine example_rows]
  from t have "length (getEngagementData example_engine example_rows) = 3"
    by (simp add: example_rows_def)
  moreover from t have "likes (getEngagementData example_engine example_rows ! 1)
      = field (example_rows ! 1) ''Likes''"
    by (simp add: example_rows_def)
  ultimately show ?thesis by (simp add: example_rows_def field_def)
qed

subsection \<open>Averages per category\<close>

lemma set_foldl_add:
  "set (foldl (\<lambda>acc x. if x \<in> set acc then acc else acc @ [x]) acc xs) = set acc \<union> set xs"
  by (induction xs arbitrary: acc) auto

lemma set_Set_values: "set (Set_values xs) = set xs"
  by (simp add: Set_values_def set_foldl_add)

lemma field_not_NaN: "field row k \<noteq> Number NaN"
proof (cases "map_of row k")
  case None
  then show ?thesis by (simp add: field_def)
next
  case (Some c)
  then show ?thesis by (cases c) (simp_all add: field_def)
qed

lemma posts_of_nonempty:
  assumes "row \<in> set rs"
  shows "posts_of rs (field row ''Post_Type'') \<noteq> []"
  using assms field_not_NaN[of row "''Post_Type''"]
  by (auto simp: posts_of_def strict_eq_def filter_empty_conv)

lemma average_example: "getAverageEngagement example_engine example_rows =
   [\<lparr>avg_name = String ''video'', avg_likes = Fin 15, avg_shares = NaN\<rparr>,
    \<lparr>avg_name = String ''image'', avg_likes = Fin 5, avg_shares = NaN\<rparr>]"
  by code_simp

text \<open>
  C6. Every entry \<open>getAverageEngagement\<close> emits is named by the \<open>Post_Type\<close> of a row of
  the input, and its two averages are quotients by the number of rows of that type, which
  is positive.
\<close>

theorem getAverageEngagement_groups:
  "\<forall>e \<in> set (getAverageEngagement E rs).
     avg_name e \<in> (\<lambda>row. field row ''Post_Type'') ` set rs \<and>
     0 < length (posts_of rs (avg_name e)) \<and>
     avg_likes e = Math_round (div_length
        (ToNumber E (foldl (\<lambda>sum post. js_add E sum (field post ''Likes'')) (Number (Fin 0))
                       (posts_of rs (avg_name e))))
        (length (posts_of rs (avg_name e)))) \<and>
     avg_shares e = Math_round (div_length
        (ToNumber E (foldl (\<lambda>sum post. js_add E sum (field post ''Shares'')) (Number (Fin 0))
                       (posts_of rs (avg_name e))))
        (length (posts_of rs (avg_name e))))"
proof
  fix e assume "e \<in> set (getAverageEngagement E rs)"
  then obtain t where t: "t \<in> set (postTypes rs)" and e: "avg_name e = t"
    "avg_likes e = Math_round (div_length
        (ToNumber E (foldl (\<lambda>sum post. js_add E sum (field post ''Likes'')) (Number (Fin 0))
                       (posts_of rs t))) (length (posts_of rs t)))"
    "avg_shares e = Math_round (div_length
        (ToNumber E (foldl (\<lambda>sum post. js_add E sum (field post ''Shares'')) (Number (Fin 0))
                       (posts_of rs t))) (length (posts_of rs t)))"
    by (auto simp: getAverageEngagement_def Let_def)
  from t obtain row where row: "row \<in> set rs" "t = field row ''Post_Type''"
    by (auto simp: postTypes_def set_Set_values)
  with posts_of_nonempty[OF row(1)] e
  show "avg_name e \<in> (\<lambda>row. field row ''Post_Type'') ` set rs \<and>
     0 < length (posts_of rs (avg_name e)) \<and>
     avg_likes e = Math_round (div_length
        (ToNumber E (foldl (\<lambda>sum post. js_add E sum (field post ''Likes'')) (Number (Fin 0))
                       (posts_of rs (avg_name e))))
        (length (posts_of rs (avg_name e)))) \<and>
     avg_shares e = Math_round (div_length
        (ToNumber E (foldl (\<lambda>sum post. js_add E sum (field post ''Shares'')) (Number (Fin 0))
                       (posts_of rs (avg_name e))))
        (length (posts_of rs (avg_name e))))"
    by simp
qed

theorem getAverageEngagement_groups_witness:
  "0 < length (posts_of example_rows (String ''video'')) \<and>
   0 < length (posts_of example_rows (String ''image''))"
  using getAverageEngagement_groups [of example_engine example_rows]
  by (simp add: average_example)

text \<open>
  C4 fails on the code. On the example of the specification, whose rows have no
  \<open>Shares\<close> field, the sum \<open>0 + undefined\<close> is \<open>NaN\<close> and so is the average: the code does
  not replace the missing field by zero, as \<open>getStats\<close> does with \<open>|| 0\<close>. The averages of
  \<open>Likes\<close> are 15 and 5, as the specification says.
\<close>

theorem getAverageEngagement_missing_shares:
  "getAverageEngagement E example_rows =
   [\<lparr>avg_name = String ''video'', avg_likes = Fin 15, avg_shares = NaN\<rparr>,
    \<lparr>avg_name = String ''image'', avg_likes = Fin 5, avg_shares = NaN\<rparr>]"
  by code_simp

subsection \<open>Loading\<close>






end
